theory Spec2Isabelle
  imports Main
begin

section \<open>Data model\<close>

text \<open>
  The transfer service of the wallet (\<^verbatim>\<open>core/src/service/transfer/tonService.ts\<close>) and the
  wallet-version list of the settings page (\<^verbatim>\<open>uikit/src/pages/settings/Version.tsx\<close>).
  Amounts are nanoton quantities: the \<^verbatim>\<open>BigNumber\<close>, \<^verbatim>\<open>bigint\<close> and \<^verbatim>\<open>number\<close> values of
  the source are integers here.
\<close>

type_synonym BigNumber = int

type_synonym Buffer = "nat list"

text \<open>
  Every way an operation can fail. The first four are the conditions the service raises
  itself (\<open>BalanceNotPositive\<close> is the failure of the positive-balance check, which the
  spec does not name); \<open>AddressError\<close> is a throw of \<^verbatim>\<open>Address.parseFriendly\<close>, \<open>AmountError\<close>
  a throw of \<^verbatim>\<open>BigInt\<close> on the amount text of a message, \<open>CellError\<close> a throw of
  \<^verbatim>\<open>Cell.fromBase64\<close> or \<^verbatim>\<open>loadStateInit\<close>, \<open>SdkError\<close> a throw of the wallet contract while
  it builds or serialises a transfer, \<open>RemoteError\<close> a rejected remote call.
\<close>

datatype error =
    DateAndTime
  | NotEnoughBalance
  | MessageCountExceeded
  | BalanceNotPositive
  | AddressError
  | AmountError
  | CellError
  | SdkError
  | RemoteError

text \<open>
  Modelled from the spec: the types of \<^verbatim>\<open>entries/\<close> and of the generated REST client
  (\<^verbatim>\<open>WalletVersion\<close>, \<^verbatim>\<open>WalletState\<close>, \<^verbatim>\<open>Account\<close>, \<^verbatim>\<open>TonRecipient\<close>, \<^verbatim>\<open>TonRecipientData\<close>,
  \<^verbatim>\<open>TransferEstimationEvent\<close>, \<^verbatim>\<open>AssetAmount\<close>, \<^verbatim>\<open>TonConnectTransactionPayload\<close>) are
  not among the sources. Each record below has the fields the service reads, and the
  enum \<^verbatim>\<open>WalletVersion\<close> the five versions that key \<^verbatim>\<open>MAX_ALLOWED_WALLET_MSGS\<close>.
\<close>

datatype WalletVersion = V3R1 | V3R2 | V4R1 | V4R2 | W5

record WalletAddress =
  rawAddress :: string
  version :: WalletVersion

record WalletState =
  active :: WalletAddress

text \<open>The \<^verbatim>\<open>Account\<close> of the generated REST client, with the fields the service reads.\<close>

record Account =
  address :: string
  balance :: int
  status :: string

type_synonym AccountsMap = "string \<rightharpoonup> Account"

text \<open>
  \<^verbatim>\<open>TonRecipient\<close>: a literal address, or a DNS reference, which carries the key \<^verbatim>\<open>dns\<close>
  beside the resolved address. \<open>dns = None\<close> is an object without that key.
\<close>

record TonRecipient =
  address :: string
  dns :: "string option"

record TonRecipientData =
  address :: TonRecipient
  comment :: string
  toAccount :: Account

record AccountEvent =
  extra :: int

record TransferEstimationEvent =
  event :: AccountEvent

record AssetAmount =
  weiAmount :: BigNumber

text \<open>One message of a \<^verbatim>\<open>TonConnectTransactionPayload\<close>; \<open>amount\<close> is text.\<close>

record TonConnectMessage =
  address :: string
  amount :: string
  stateInit :: "string option"
  payload :: "string option"

record TonConnectTransactionPayload =
  messages :: "TonConnectMessage list"

text \<open>\<^verbatim>\<open>TransferMessage\<close>, as the service declares it.\<close>

record TransferMessage =
  to :: string
  bounce :: bool
  weiAmount :: BigNumber
  comment :: "string option"

text \<open>
  A cell of the SDK, named by the base64 text it was parsed from, and the two parts of a
  state init that \<open>toStateInit\<close> keeps.
\<close>

datatype Cell = Cell string

record StateInit =
  code :: "Cell option"
  data :: "Cell option"

text \<open>The argument of the SDK's \<^verbatim>\<open>internal\<close>. \<open>bounce = None\<close> is \<^verbatim>\<open>undefined\<close>.\<close>

datatype MessageBody = TextComment string | BodyCell Cell

record InternalMessage =
  to :: string
  bounce :: "bool option"
  msg_value :: int
  init :: "StateInit option"
  body :: "MessageBody option"

text \<open>The argument of the wallet contract's \<^verbatim>\<open>createTransfer\<close>.\<close>

record TransferArgs =
  seqno :: nat
  secretKey :: Buffer
  timeout :: nat
  sendMode :: nat
  messages :: "InternalMessage list"

record FriendlyAddress =
  isBounceable :: bool
  isTestOnly :: bool

text \<open>
  The blockchain SDK (\<^verbatim>\<open>@ton/core\<close>, \<^verbatim>\<open>@ton/crypto\<close>, the wallet contracts) is an external
  collaborator and a parameter of the model: the two address tests (\<open>None\<close> where
  \<^verbatim>\<open>Address.parseFriendly\<close> throws), the \<^verbatim>\<open>SendMode\<close> constants, the key derivation (the
  secret key of the pair it returns), and the serialisation of a transfer by the wallet
  contract of a wallet state
  (\<^verbatim>\<open>externalMessage(contract, seqno, contract.createTransfer(args)).toBoc(opts)\<close>, with
  \<open>None\<close> where the SDK throws) followed by its base64 text. With it come the parsers
  the service calls on the text of a TonConnect message: \<^verbatim>\<open>BigInt\<close> (\<open>None\<close> where it
  throws), \<^verbatim>\<open>BigNumber\<close> (\<open>None\<close> for \<^verbatim>\<open>NaN\<close>), \<^verbatim>\<open>Cell.fromBase64\<close> and \<^verbatim>\<open>loadStateInit\<close>
  (\<open>None\<close> where they throw).
\<close>

record Sdk =
  isFriendly :: "string \<Rightarrow> bool"
  parseFriendly :: "string \<Rightarrow> FriendlyAddress option"
  PAY_GAS_SEPARATELY :: nat
  IGNORE_ERRORS :: nat
  CARRY_ALL_REMAINING_BALANCE :: nat
  mnemonicToPrivateKey :: "string list \<Rightarrow> Buffer"
  toBoc :: "WalletState \<Rightarrow> TransferArgs \<Rightarrow> bool option \<Rightarrow> Buffer option"
  toBase64 :: "Buffer \<Rightarrow> string"
  bigInt :: "string \<Rightarrow> int option"
  bigNumber :: "string \<Rightarrow> int option"
  cellFromBase64 :: "string \<Rightarrow> Cell option"
  loadStateInit :: "Cell \<Rightarrow> StateInit option"

section \<open>Bounce flag\<close>

text \<open>
  \<^verbatim>\<open>Address.isFriendly(address) ? Address.parseFriendly(address).isBounceable : true\<close>:
  a raw address is bounceable by default.
\<close>

definition seeIfAddressBounceable :: "Sdk \<Rightarrow> string \<Rightarrow> error + bool" where
  "seeIfAddressBounceable sdk a =
     (if isFriendly sdk a
      then (case parseFriendly sdk a of
              None \<Rightarrow> Inl AddressError
            | Some f \<Rightarrow> Inr (isBounceable f))
      else Inr True)"

text \<open>
  \<^verbatim>\<open>toAccount && toAccount.status === 'active'\<close> is \<^verbatim>\<open>undefined\<close> when the map has no entry
  for the address, and \<^verbatim>\<open>bounceableAddress || activeContract\<close> is then \<^verbatim>\<open>undefined\<close> too
  unless the address is bounceable: the result is a boolean or \<^verbatim>\<open>undefined\<close> (\<open>None\<close>).
\<close>

definition seeIfBounceable :: "Sdk \<Rightarrow> AccountsMap \<Rightarrow> string \<Rightarrow> error + bool option" where
  "seeIfBounceable sdk accounts a =
     (case seeIfAddressBounceable sdk a of
        Inl e \<Rightarrow> Inl e
      | Inr bounceableAddress \<Rightarrow>
          (let toAccount = accounts a;
               activeContract =
                 (case toAccount of
                    None \<Rightarrow> None
                  | Some acc \<Rightarrow> Some (status acc = ''active''))
           in Inr (if bounceableAddress then Some True else activeContract)))"

definition seeIfTransferBounceable :: "Sdk \<Rightarrow> Account \<Rightarrow> TonRecipient \<Rightarrow> error + bool" where
  "seeIfTransferBounceable sdk account recipient =
     (if dns recipient \<noteq> None then Inr False
      else (case seeIfAddressBounceable sdk (TonRecipient.address recipient) of
              Inl e \<Rightarrow> Inl e
            | Inr bounceableAddress \<Rightarrow>
                if \<not> bounceableAddress then Inr False
                else Inr (status account = ''active'')))"

section \<open>Effects\<close>

text \<open>
  What an operation does besides returning: the remote requests it sends, the key it
  derives and the transfers it asks the SDK to build, in the order of the calls. An
  operation returns this log with its result, or with the error that ended it.
\<close>

datatype effect =
    ServiceTimeRequest
  | WalletBalanceRequest string
  | SeqNoRequest string
  | AccountRequest string
  | KeyDerivation
  | Construction TransferArgs
  | Emulation string string
  | Broadcast string

type_synonym 'a io = "effect list \<times> (error + 'a)"

definition succeed :: "'a \<Rightarrow> 'a io" where
  "succeed x = ([], Inr x)"

definition die :: "error \<Rightarrow> 'a io" where
  "die e = ([], Inl e)"

definition andThen :: "'a io \<Rightarrow> ('a \<Rightarrow> 'b io) \<Rightarrow> 'b io" where
  "andThen m f =
     (case snd m of
        Inl e \<Rightarrow> (fst m, Inl e)
      | Inr x \<Rightarrow> (fst m @ fst (f x), snd (f x)))"

definition attempt :: "effect \<Rightarrow> error \<Rightarrow> 'a option \<Rightarrow> 'a io" where
  "attempt ef e r = ([ef], case r of None \<Rightarrow> Inl e | Some x \<Rightarrow> Inr x)"

text \<open>
  The remote service as one run sees it: the outcome of each request (\<open>None\<close> is a
  rejected call), and the expiry time that \<^verbatim>\<open>getTTL()\<close> reads off the local clock.
\<close>

record APIConfig =
  serviceTimeSync :: "bool option"
  walletBalance :: "string \<Rightarrow> (Account \<times> nat) option"
  walletSeqNo :: "string \<Rightarrow> nat option"
  getAccount :: "string \<Rightarrow> Account option"
  emulateMessageToAccountEvent :: "string \<Rightarrow> string \<Rightarrow> AccountEvent option"
  sendBlockchainMessage :: "string \<Rightarrow> unit option"
  getTTL :: nat

section \<open>Helpers of \<^verbatim>\<open>./common\<close>\<close>

text \<open>
  Modelled from the spec: \<^verbatim>\<open>seeIfServiceTimeSync\<close> of \<^verbatim>\<open>./common\<close> is not among the
  sources. It asks the remote service whether its clock and the local one agree.
\<close>

definition seeIfServiceTimeSync :: "APIConfig \<Rightarrow> bool io" where
  "seeIfServiceTimeSync api = attempt ServiceTimeRequest RemoteError (serviceTimeSync api)"

text \<open>
  Modelled from the spec: \<^verbatim>\<open>checkServiceTimeOrDie\<close> of \<^verbatim>\<open>./common\<close> is not among the
  sources. The remote service clock must be in sync; the operation fails with the
  \<^verbatim>\<open>date-and-time\<close> condition otherwise.
\<close>

definition checkServiceTimeOrDie :: "APIConfig \<Rightarrow> unit io" where
  "checkServiceTimeOrDie api =
     andThen (seeIfServiceTimeSync api)
       (\<lambda>isSynced. if \<not> isSynced then die DateAndTime else succeed ())"

text \<open>
  Modelled from the spec: \<^verbatim>\<open>getWalletBalance\<close> and \<^verbatim>\<open>getWalletSeqNo\<close> of \<^verbatim>\<open>./common\<close> are
  not among the sources. They fetch the wallet's account with its sequence number, and
  the sequence number alone, for the active address of the wallet state.
\<close>

definition getWalletBalance :: "APIConfig \<Rightarrow> WalletState \<Rightarrow> (Account \<times> nat) io" where
  "getWalletBalance api walletState =
     attempt (WalletBalanceRequest (rawAddress (active walletState))) RemoteError
       (walletBalance api (rawAddress (active walletState)))"

definition getWalletSeqNo :: "APIConfig \<Rightarrow> string \<Rightarrow> nat io" where
  "getWalletSeqNo api a = attempt (SeqNoRequest a) RemoteError (walletSeqNo api a)"

text \<open>
  Modelled from the spec: \<^verbatim>\<open>checkWalletBalanceOrDie\<close> of \<^verbatim>\<open>./common\<close> is not among the
  sources. It fails with \<^verbatim>\<open>not-enough-balance\<close> when the total is greater than or equal
  to the balance, and passes otherwise.
\<close>

definition checkWalletBalanceOrDie :: "BigNumber \<Rightarrow> Account \<Rightarrow> unit io" where
  "checkWalletBalanceOrDie totalAmount wallet =
     (if totalAmount \<ge> balance wallet then die NotEnoughBalance else succeed ())"

text \<open>
  Modelled from the spec: \<^verbatim>\<open>checkWalletPositiveBalanceOrDie\<close> of \<^verbatim>\<open>./common\<close> is not among
  the sources. The wallet balance must be positive.
\<close>

definition checkWalletPositiveBalanceOrDie :: "Account \<Rightarrow> unit io" where
  "checkWalletPositiveBalanceOrDie wallet =
     (if 0 < balance wallet then succeed () else die BalanceNotPositive)"

fun MAX_ALLOWED_WALLET_MSGS :: "WalletVersion \<Rightarrow> nat" where
  "MAX_ALLOWED_WALLET_MSGS W5 = 255"
| "MAX_ALLOWED_WALLET_MSGS V4R2 = 4"
| "MAX_ALLOWED_WALLET_MSGS V4R1 = 4"
| "MAX_ALLOWED_WALLET_MSGS V3R2 = 4"
| "MAX_ALLOWED_WALLET_MSGS V3R1 = 4"

text \<open>
  Modelled from the spec: \<^verbatim>\<open>checkMaxAllowedMessagesInMultiTransferOrDie\<close> of \<^verbatim>\<open>./common\<close>
  is not among the sources. A batch with more messages than the ceiling of the wallet
  version fails with the message-count condition; a batch at or below it proceeds.
\<close>

definition checkMaxAllowedMessagesInMultiTransferOrDie :: "nat \<Rightarrow> WalletVersion \<Rightarrow> unit io" where
  "checkMaxAllowedMessagesInMultiTransferOrDie messagesNumber walletVersion =
     (if messagesNumber > MAX_ALLOWED_WALLET_MSGS walletVersion
      then die MessageCountExceeded else succeed ())"

section \<open>Transfer construction\<close>

text \<open>
  \<^verbatim>\<open>externalMessage(contract, seqno, contract.createTransfer(args)).toBoc(opts)\<close>: the
  request to the SDK is logged with its arguments; \<open>opts\<close> is the \<^verbatim>\<open>idx\<close> option, \<open>None\<close>
  where \<^verbatim>\<open>toBoc()\<close> is called without one.
\<close>

definition createTransfer :: "Sdk \<Rightarrow> WalletState \<Rightarrow> TransferArgs \<Rightarrow> bool option \<Rightarrow> Buffer io" where
  "createTransfer sdk walletState args opts =
     attempt (Construction args) SdkError (toBoc sdk walletState args opts)"

text \<open>\<^verbatim>\<open>Buffer.alloc(64)\<close>, the placeholder key of an estimation.\<close>

definition placeholderKey :: Buffer where
  "placeholderKey = replicate 64 0"

text \<open>
  \<^verbatim>\<open>undefined\<close> for a missing or empty text; otherwise the text is parsed, and a throw of
  the parser is a throw of \<open>toStateInit\<close>.
\<close>

definition toStateInit :: "Sdk \<Rightarrow> string option \<Rightarrow> error + StateInit option" where
  "toStateInit sdk src =
     (case src of
        None \<Rightarrow> Inr None
      | Some s \<Rightarrow>
          if s = [] then Inr None
          else (case cellFromBase64 sdk s of
                  None \<Rightarrow> Inl CellError
                | Some c \<Rightarrow>
                    (case loadStateInit sdk c of
                       None \<Rightarrow> Inl CellError
                     | Some si \<Rightarrow> Inr (Some \<lparr>code = code si, data = data si\<rparr>))))"

text \<open>\<^verbatim>\<open>item.payload ? Cell.fromBase64(item.payload) : undefined\<close>.\<close>

definition toBody :: "Sdk \<Rightarrow> string option \<Rightarrow> error + MessageBody option" where
  "toBody sdk src =
     (case src of
        None \<Rightarrow> Inr None
      | Some p \<Rightarrow>
          if p = [] then Inr None
          else (case cellFromBase64 sdk p of
                  None \<Rightarrow> Inl CellError
                | Some c \<Rightarrow> Inr (Some (BodyCell c))))"

text \<open>
  The argument of \<^verbatim>\<open>internal\<close> for one TonConnect message. The fields are evaluated in
  the order they are written: the bounce test, \<^verbatim>\<open>BigInt(item.amount)\<close>, the state init,
  the body; the first throw ends the evaluation.
\<close>

definition internalMessage :: "Sdk \<Rightarrow> AccountsMap \<Rightarrow> TonConnectMessage \<Rightarrow> error + InternalMessage" where
  "internalMessage sdk accounts item =
     (case seeIfBounceable sdk accounts (TonConnectMessage.address item) of
        Inl e \<Rightarrow> Inl e
      | Inr b \<Rightarrow>
          (case bigInt sdk (amount item) of
             None \<Rightarrow> Inl AmountError
           | Some v \<Rightarrow>
               (case toStateInit sdk (stateInit item) of
                  Inl e \<Rightarrow> Inl e
                | Inr si \<Rightarrow>
                    (case toBody sdk (payload item) of
                       Inl e \<Rightarrow> Inl e
                     | Inr bd \<Rightarrow>
                         Inr \<lparr>to = TonConnectMessage.address item,
                              bounce = b,
                              msg_value = v,
                              init = si,
                              body = bd\<rparr>))))"

definition createTonTransfer ::
  "Sdk \<Rightarrow> APIConfig \<Rightarrow> nat \<Rightarrow> WalletState \<Rightarrow> TonRecipientData \<Rightarrow> BigNumber \<Rightarrow> bool \<Rightarrow> Buffer
     \<Rightarrow> Buffer io" where
  "createTonTransfer sdk api seqno' walletState recipient weiAmount' isMax secretKey' =
     (case seeIfTransferBounceable sdk (toAccount recipient) (TonRecipientData.address recipient) of
        Inl e \<Rightarrow> die e
      | Inr b \<Rightarrow>
          createTransfer sdk walletState
            \<lparr>seqno = seqno',
             secretKey = secretKey',
             timeout = getTTL api,
             sendMode =
               (if isMax then CARRY_ALL_REMAINING_BALANCE sdk + IGNORE_ERRORS sdk
                else PAY_GAS_SEPARATELY sdk + IGNORE_ERRORS sdk),
             messages =
               [\<lparr>to = Account.address (toAccount recipient),
                 bounce = Some b,
                 msg_value = weiAmount',
                 init = None,
                 body =
                   (if TonRecipientData.comment recipient \<noteq> []
                    then Some (TextComment (TonRecipientData.comment recipient)) else None)\<rparr>]\<rparr>
            None)"

text \<open>
  \<^verbatim>\<open>params.messages.map(item => internal({...}))\<close>, from the first message to the last;
  the first throw ends the map, before \<^verbatim>\<open>contract.createTransfer\<close> is called.
\<close>

fun internalMessages :: "Sdk \<Rightarrow> AccountsMap \<Rightarrow> TonConnectMessage list \<Rightarrow> error + InternalMessage list" where
  "internalMessages sdk accounts [] = Inr []"
| "internalMessages sdk accounts (item # items) =
     (case internalMessage sdk accounts item of
        Inl e \<Rightarrow> Inl e
      | Inr m \<Rightarrow>
          (case internalMessages sdk accounts items of
             Inl e \<Rightarrow> Inl e
           | Inr ms \<Rightarrow> Inr (m # ms)))"

definition createTonConnectTransfer ::
  "Sdk \<Rightarrow> APIConfig \<Rightarrow> nat \<Rightarrow> WalletState \<Rightarrow> AccountsMap \<Rightarrow> TonConnectTransactionPayload \<Rightarrow> Buffer
     \<Rightarrow> Buffer io" where
  "createTonConnectTransfer sdk api seqno' walletState accounts params secretKey' =
     (case internalMessages sdk accounts (TonConnectTransactionPayload.messages params) of
        Inl e \<Rightarrow> die e
      | Inr ms \<Rightarrow>
          createTransfer sdk walletState
            \<lparr>seqno = seqno',
             secretKey = secretKey',
             timeout = getTTL api,
             sendMode = PAY_GAS_SEPARATELY sdk + IGNORE_ERRORS sdk,
             messages = ms\<rparr>
            (Some False))"

definition createTonMultiTransfer ::
  "Sdk \<Rightarrow> APIConfig \<Rightarrow> nat \<Rightarrow> WalletState \<Rightarrow> TransferMessage list \<Rightarrow> Buffer option \<Rightarrow> Buffer io" where
  "createTonMultiTransfer sdk api seqno' walletState transferMessages optSecretKey =
     createTransfer sdk walletState
       \<lparr>seqno = seqno',
        secretKey = (case optSecretKey of None \<Rightarrow> placeholderKey | Some k \<Rightarrow> k),
        timeout = getTTL api,
        sendMode = PAY_GAS_SEPARATELY sdk + IGNORE_ERRORS sdk,
        messages =
          map (\<lambda>msg.
                 \<lparr>to = TransferMessage.to msg,
                  bounce = Some (TransferMessage.bounce msg),
                  msg_value = TransferMessage.weiAmount msg,
                  init = None,
                  body =
                    (case TransferMessage.comment msg of
                       None \<Rightarrow> None
                     | Some c \<Rightarrow> if c \<noteq> [] then Some (TextComment c) else None)\<rparr>)
              transferMessages\<rparr>
       None"

section \<open>Operations\<close>

text \<open>The remote calls and the key derivation, each logged as it is made.\<close>

definition emulate :: "APIConfig \<Rightarrow> string \<Rightarrow> string \<Rightarrow> AccountEvent io" where
  "emulate api accountId boc =
     attempt (Emulation accountId boc) RemoteError (emulateMessageToAccountEvent api accountId boc)"

definition broadcast :: "APIConfig \<Rightarrow> string \<Rightarrow> unit io" where
  "broadcast api boc = attempt (Broadcast boc) RemoteError (sendBlockchainMessage api boc)"

definition deriveKey :: "Sdk \<Rightarrow> string list \<Rightarrow> Buffer io" where
  "deriveKey sdk mnemonic = ([KeyDerivation], Inr (mnemonicToPrivateKey sdk mnemonic))"

definition estimateTonTransfer ::
  "Sdk \<Rightarrow> APIConfig \<Rightarrow> WalletState \<Rightarrow> TonRecipientData \<Rightarrow> BigNumber \<Rightarrow> bool
     \<Rightarrow> TransferEstimationEvent io" where
  "estimateTonTransfer sdk api walletState recipient weiAmount' isMax =
     andThen (checkServiceTimeOrDie api) (\<lambda>_.
     andThen (getWalletBalance api walletState) (\<lambda>(wallet, seqno').
     andThen (if \<not> isMax then checkWalletPositiveBalanceOrDie wallet else succeed ()) (\<lambda>_.
     andThen (createTonTransfer sdk api seqno' walletState recipient weiAmount' isMax placeholderKey)
       (\<lambda>cell.
     andThen (emulate api (Account.address wallet) (toBase64 sdk cell)) (\<lambda>ev.
     succeed \<lparr>event = ev\<rparr>)))))"

text \<open>
  The result of \<^verbatim>\<open>tonConnectTransferError\<close>: \<open>kind\<close> is one of the two conditions, or \<open>None\<close>
  for \<^verbatim>\<open>undefined\<close>.
\<close>

record ConnectTransferError =
  kind :: "error option"

text \<open>
  \<^verbatim>\<open>acc.plus(message.amount)\<close>: the sum is \<^verbatim>\<open>NaN\<close> (\<open>None\<close>) once a term is, and a comparison
  with \<^verbatim>\<open>NaN\<close> is false.
\<close>

definition bigNumberPlus :: "Sdk \<Rightarrow> int option \<Rightarrow> string \<Rightarrow> int option" where
  "bigNumberPlus sdk acc text =
     (case acc of
        None \<Rightarrow> None
      | Some a \<Rightarrow> (case bigNumber sdk text of None \<Rightarrow> None | Some v \<Rightarrow> Some (a + v)))"

definition tonConnectTransferError ::
  "Sdk \<Rightarrow> APIConfig \<Rightarrow> WalletState \<Rightarrow> TonConnectTransactionPayload
     \<Rightarrow> ConnectTransferError io" where
  "tonConnectTransferError sdk api walletState params =
     andThen (seeIfServiceTimeSync api) (\<lambda>isSynced.
       if \<not> isSynced then succeed \<lparr>kind = Some DateAndTime\<rparr>
       else
         andThen (attempt (AccountRequest (rawAddress (active walletState))) RemoteError
                    (getAccount api (rawAddress (active walletState)))) (\<lambda>wallet.
           let totalAmount =
                 foldl (\<lambda>acc message. bigNumberPlus sdk acc (amount message)) (Some 0)
                   (TonConnectTransactionPayload.messages params)
           in if (case totalAmount of None \<Rightarrow> False | Some t \<Rightarrow> t \<ge> balance wallet)
              then succeed \<lparr>kind = Some NotEnoughBalance\<rparr>
              else succeed \<lparr>kind = None\<rparr>))"

definition estimateTonConnectTransfer ::
  "Sdk \<Rightarrow> APIConfig \<Rightarrow> WalletState \<Rightarrow> AccountsMap \<Rightarrow> TonConnectTransactionPayload
     \<Rightarrow> TransferEstimationEvent io" where
  "estimateTonConnectTransfer sdk api walletState accounts params =
     andThen (checkServiceTimeOrDie api) (\<lambda>_.
     andThen (getWalletBalance api walletState) (\<lambda>(wallet, seqno').
     andThen (checkWalletPositiveBalanceOrDie wallet) (\<lambda>_.
     andThen (createTonConnectTransfer sdk api seqno' walletState accounts params placeholderKey)
       (\<lambda>cell.
     andThen (emulate api (Account.address wallet) (toBase64 sdk cell)) (\<lambda>ev.
     succeed \<lparr>event = ev\<rparr>)))))"

definition sendTonConnectTransfer ::
  "Sdk \<Rightarrow> APIConfig \<Rightarrow> WalletState \<Rightarrow> AccountsMap \<Rightarrow> TonConnectTransactionPayload \<Rightarrow> string list
     \<Rightarrow> string io" where
  "sendTonConnectTransfer sdk api walletState accounts params mnemonic =
     andThen (checkServiceTimeOrDie api) (\<lambda>_.
     andThen (deriveKey sdk mnemonic) (\<lambda>keyPair.
     andThen (getWalletSeqNo api (rawAddress (active walletState))) (\<lambda>seqno'.
     andThen (createTonConnectTransfer sdk api seqno' walletState accounts params keyPair)
       (\<lambda>external.
     let boc = toBase64 sdk external
     in andThen (broadcast api boc) (\<lambda>_.
        succeed boc)))))"

definition sendTonTransfer ::
  "Sdk \<Rightarrow> APIConfig \<Rightarrow> WalletState \<Rightarrow> TonRecipientData \<Rightarrow> AssetAmount \<Rightarrow> bool
     \<Rightarrow> TransferEstimationEvent \<Rightarrow> string list \<Rightarrow> unit io" where
  "sendTonTransfer sdk api walletState recipient amount' isMax fee mnemonic =
     andThen (checkServiceTimeOrDie api) (\<lambda>_.
     andThen (deriveKey sdk mnemonic) (\<lambda>keyPair.
     let totalAmount = extra (event fee) * (- 1) + AssetAmount.weiAmount amount'
     in andThen (getWalletBalance api walletState) (\<lambda>(wallet, seqno').
        andThen (if \<not> isMax then checkWalletBalanceOrDie totalAmount wallet else succeed ()) (\<lambda>_.
        andThen (createTonTransfer sdk api seqno' walletState recipient
                   (AssetAmount.weiAmount amount') isMax keyPair) (\<lambda>cell.
        andThen (broadcast api (toBase64 sdk cell)) (\<lambda>_.
        succeed ()))))))"

definition estimateTonMultiTransfer ::
  "Sdk \<Rightarrow> APIConfig \<Rightarrow> WalletState \<Rightarrow> TransferMessage list \<Rightarrow> AccountEvent io" where
  "estimateTonMultiTransfer sdk api walletState transferMessages =
     andThen (checkServiceTimeOrDie api) (\<lambda>_.
     let totalAmount = foldl (\<lambda>acc msg. acc + TransferMessage.weiAmount msg) 0 transferMessages
     in andThen (getWalletBalance api walletState) (\<lambda>(wallet, seqno').
        andThen (checkWalletBalanceOrDie totalAmount wallet) (\<lambda>_.
        andThen (checkMaxAllowedMessagesInMultiTransferOrDie (length transferMessages)
                   (WalletAddress.version (active walletState))) (\<lambda>_.
        andThen (createTonMultiTransfer sdk api seqno' walletState transferMessages None) (\<lambda>cell.
        emulate api (Account.address wallet) (toBase64 sdk cell))))))"

definition sendTonMultiTransfer ::
  "Sdk \<Rightarrow> APIConfig \<Rightarrow> WalletState \<Rightarrow> TransferMessage list \<Rightarrow> BigNumber \<Rightarrow> string list
     \<Rightarrow> bool io" where
  "sendTonMultiTransfer sdk api walletState transferMessages feeEstimate mnemonic =
     andThen (checkServiceTimeOrDie api) (\<lambda>_.
     andThen (deriveKey sdk mnemonic) (\<lambda>keyPair.
     let totalAmount = foldl (\<lambda>acc msg. acc + TransferMessage.weiAmount msg) 0 transferMessages
     in andThen (getWalletBalance api walletState) (\<lambda>(wallet, seqno').
        andThen (checkWalletBalanceOrDie (totalAmount + feeEstimate) wallet) (\<lambda>_.
        andThen (checkMaxAllowedMessagesInMultiTransferOrDie (length transferMessages)
                   (WalletAddress.version (active walletState))) (\<lambda>_.
        andThen (createTonMultiTransfer sdk api seqno' walletState transferMessages (Some keyPair))
          (\<lambda>cell.
        andThen (broadcast api (toBase64 sdk cell)) (\<lambda>_.
        succeed True)))))))"

section \<open>Wallet-version list of the settings page\<close>

text \<open>An entry of \<^verbatim>\<open>useStandardTonWalletVersions\<close>.\<close>

record WalletVersionEntry =
  version :: WalletVersion
  address :: string
  tonBalance :: int
  hasJettons :: bool

text \<open>
  \<^verbatim>\<open>backwardCompatibilityOnlyWalletVersions\<close> of \<^verbatim>\<open>entries/wallet\<close> is a parameter. A number
  is truthy when it is not zero.
\<close>

definition walletsToShow ::
  "WalletVersion list \<Rightarrow> WalletAddress list \<Rightarrow> WalletVersionEntry list \<Rightarrow> WalletVersionEntry list" where
  "walletsToShow backwardCompatibilityOnlyWalletVersions currentAccountWalletsVersions wallets =
     filter
       (\<lambda>w. WalletVersionEntry.version w \<notin> set backwardCompatibilityOnlyWalletVersions
            \<or> list_ex (\<lambda>item. WalletAddress.version item = WalletVersionEntry.version w)
                 currentAccountWalletsVersions
            \<or> tonBalance w \<noteq> 0
            \<or> hasJettons w)
       wallets"

text \<open>
  Modelled from the spec: the account type of \<^verbatim>\<open>entries/account\<close> is not among the sources.
  The page reads its \<^verbatim>\<open>type\<close> and the wallets attached to it.
\<close>

record UiAccount =
  accountType :: string
  activeDerivationTonWallets :: "WalletAddress list"

text \<open>
  What \<^verbatim>\<open>WalletVersionPageContent\<close> displays: the entries for which it renders a list item.
  The selected account is the passed one, or the active one where none is passed. While
  the wallet list is loading (\<open>None\<close>) a skeleton is rendered and no entry; for a ledger or
  a keystone account an error line is rendered in place of the list.
\<close>

definition WalletVersionPageContent ::
  "WalletVersion list \<Rightarrow> UiAccount \<Rightarrow> UiAccount option \<Rightarrow> WalletVersionEntry list option
     \<Rightarrow> WalletVersionEntry list" where
  "WalletVersionPageContent backwardCompatibilityOnlyWalletVersions activeAccount passedAccount
       wallets =
     (let selectedAccount = (case passedAccount of None \<Rightarrow> activeAccount | Some a \<Rightarrow> a);
          currentAccountWalletsVersions = activeDerivationTonWallets selectedAccount
      in case wallets of
           None \<Rightarrow> []
         | Some ws \<Rightarrow>
             (let isLedger = (accountType selectedAccount = ''ledger'');
                  isKeystone = (accountType selectedAccount = ''keystone'')
              in if \<not> isLedger \<and> \<not> isKeystone
                 then walletsToShow backwardCompatibilityOnlyWalletVersions
                        currentAccountWalletsVersions ws
                 else []))"

section \<open>A stand-in SDK\<close>

text \<open>
  An instance of the SDK interface, to run the model on concrete inputs. A user-friendly
  address has 48 characters and its first character holds the tag: \<open>E\<close> and \<open>k\<close> for a
  bounceable address, \<open>U\<close> and \<open>0\<close> for a non-bounceable one (\<open>k\<close> and \<open>0\<close> on the test
  network). The checksum is not verified and the serialisation is a short digest of the
  transfer. An amount is a run of decimal digits, and a cell is parsed from a text that
  starts with \<open>te6cc\<close>, as the base64 text of a serialised cell does. The theorems below
  hold for every SDK, this one included.
\<close>

fun decimal :: "int \<Rightarrow> string \<Rightarrow> int option" where
  "decimal n [] = Some n"
| "decimal n (c # cs) =
     (case map_of
             [(CHR ''0'', 0), (CHR ''1'', 1), (CHR ''2'', 2), (CHR ''3'', 3), (CHR ''4'', 4),
              (CHR ''5'', 5), (CHR ''6'', 6), (CHR ''7'', 7), (CHR ''8'', 8), (CHR ''9'', 9)] c of
        None \<Rightarrow> None
      | Some d \<Rightarrow> decimal (10 * n + d) cs)"

definition standInSdk :: Sdk where
  "standInSdk =
     \<lparr>isFriendly = (\<lambda>s. length s = 48),
      parseFriendly =
        (\<lambda>s. case s of
               [] \<Rightarrow> None
             | c # _ \<Rightarrow>
                 if c = CHR ''E'' \<or> c = CHR ''k''
                 then Some \<lparr>isBounceable = True, isTestOnly = (c = CHR ''k'')\<rparr>
                 else if c = CHR ''U'' \<or> c = CHR ''0''
                 then Some \<lparr>isBounceable = False, isTestOnly = (c = CHR ''0'')\<rparr>
                 else None),
      PAY_GAS_SEPARATELY = 1,
      IGNORE_ERRORS = 2,
      CARRY_ALL_REMAINING_BALANCE = 128,
      mnemonicToPrivateKey = (\<lambda>ws. map length ws),
      toBoc = (\<lambda>ws args opts.
                 Some [seqno args, sendMode args, length (TransferArgs.messages args)]),
      toBase64 = (\<lambda>b. map (\<lambda>n. if n = 0 then CHR ''A'' else CHR ''B'') b),
      bigInt = decimal 0,
      bigNumber = decimal 0,
      cellFromBase64 = (\<lambda>s. if take 5 s = ''te6cc'' then Some (Cell s) else None),
      loadStateInit = (\<lambda>c. Some \<lparr>code = Some c, data = None\<rparr>)\<rparr>"

section \<open>Example inputs\<close>

text \<open>
  A V4R2 wallet with a balance of 1000, a remote service that is in sync and accepts what
  it is sent, and a recipient given by a non-bounceable literal address.
\<close>

definition exampleRaw :: string where
  "exampleRaw = ''0:83dfd552e63729b472fcbcc8c45ebcc6691702558b68ec7527e1ba403a0f31a8''"

definition exampleWallet :: WalletState where
  "exampleWallet = \<lparr>active = \<lparr>rawAddress = exampleRaw, version = V4R2\<rparr>\<rparr>"

definition exampleAccount :: Account where
  "exampleAccount = \<lparr>Account.address = exampleRaw, balance = 1000, status = ''active''\<rparr>"

definition exampleApi :: APIConfig where
  "exampleApi =
     \<lparr>serviceTimeSync = Some True,
      walletBalance = (\<lambda>a. Some (exampleAccount, 7)),
      walletSeqNo = (\<lambda>a. Some 7),
      getAccount = (\<lambda>a. Some exampleAccount),
      emulateMessageToAccountEvent = (\<lambda>a boc. Some \<lparr>extra = - 50\<rparr>),
      sendBlockchainMessage = (\<lambda>boc. Some ()),
      getTTL = 300\<rparr>"

definition exampleRecipient :: TonRecipientData where
  "exampleRecipient =
     \<lparr>TonRecipientData.address =
        \<lparr>TonRecipient.address = ''UQCD39VS5jcptHL8vMjEXrzGaRcCVYto7HUn4bpAOg8xqEBI'', dns = None\<rparr>,
      comment = ''rent'',
      toAccount = \<lparr>Account.address = exampleRaw, balance = 0, status = ''uninit''\<rparr>\<rparr>"

text \<open>A TonConnect message and a transfer message of one nanoton each, to build batches.\<close>

definition exampleItem :: TonConnectMessage where
  "exampleItem =
     \<lparr>TonConnectMessage.address = ''UQCD39VS5jcptHL8vMjEXrzGaRcCVYto7HUn4bpAOg8xqEBI'',
      amount = ''1'', stateInit = None, payload = None\<rparr>"

definition exampleMessage :: TransferMessage where
  "exampleMessage =
     \<lparr>TransferMessage.to = ''EQCD39VS5jcptHL8vMjEXrzGaRcCVYto7HUn4bpAOg8xqB2N'',
      bounce = True, weiAmount = 1, comment = None\<rparr>"

text \<open>An accounts map that holds the destination of \<open>exampleItem\<close>, not yet active.\<close>

definition exampleAccounts :: AccountsMap where
  "exampleAccounts =
     [''UQCD39VS5jcptHL8vMjEXrzGaRcCVYto7HUn4bpAOg8xqEBI'' \<mapsto>
        \<lparr>Account.address = exampleRaw, balance = 0, status = ''uninit''\<rparr>]"

section \<open>The steps of an operation\<close>

lemma andThen_Inl: "andThen (l, Inl e) f = (l, Inl e)"
  by (simp add: andThen_def)

lemma andThen_Inr: "andThen (l, Inr x) f = (l @ fst (f x), snd (f x))"
  by (simp add: andThen_def)

lemma andThen_succeed: "andThen m succeed = m"
  by (cases m) (auto simp add: andThen_def succeed_def split: sum.splits)

lemma snd_andThen_Inl:
  "snd (andThen m f) = Inl e \<longleftrightarrow> snd m = Inl e \<or> (\<exists>x. snd m = Inr x \<and> snd (f x) = Inl e)"
  by (auto simp add: andThen_def split: sum.splits)

lemma checkServiceTimeOrDie_cases:
  "checkServiceTimeOrDie api =
     ([ServiceTimeRequest],
      case serviceTimeSync api of
        None \<Rightarrow> Inl RemoteError
      | Some isSynced \<Rightarrow> if isSynced then Inr () else Inl DateAndTime)"
  by (simp add: checkServiceTimeOrDie_def seeIfServiceTimeSync_def attempt_def andThen_def
        die_def succeed_def split: option.splits)

text \<open>The errors each step can end with.\<close>

lemma seeIfAddressBounceable_error:
  "seeIfAddressBounceable sdk a = Inl e \<Longrightarrow> e = AddressError"
  by (auto simp add: seeIfAddressBounceable_def split: if_splits option.splits)

lemma seeIfTransferBounceable_error:
  "seeIfTransferBounceable sdk account recipient = Inl e \<Longrightarrow> e = AddressError"
  by (auto simp add: seeIfTransferBounceable_def split: if_splits sum.splits
        dest: seeIfAddressBounceable_error)






lemma createTransfer_error:
  "snd (createTransfer sdk walletState args opts) = Inl e \<Longrightarrow> e = SdkError"
  by (auto simp add: createTransfer_def attempt_def split: option.splits)

lemma createTonTransfer_error:
  "snd (createTonTransfer sdk api sq walletState recipient amt isMax key) = Inl e
     \<Longrightarrow> e = AddressError \<or> e = SdkError"
  by (auto simp add: createTonTransfer_def die_def split: sum.splits
        dest: seeIfTransferBounceable_error createTransfer_error)


lemma createTonConnectTransfer_throw:
  "internalMessages sdk accounts (TonConnectTransactionPayload.messages params) = Inl e
     \<Longrightarrow> createTonConnectTransfer sdk api sq walletState accounts params key = ([], Inl e)"
  by (simp add: createTonConnectTransfer_def die_def)

lemma createTonMultiTransfer_error:
  "snd (createTonMultiTransfer sdk api sq walletState msgs key) = Inl e \<Longrightarrow> e = SdkError"
  by (auto simp add: createTonMultiTransfer_def dest: createTransfer_error)

lemma broadcast_error: "snd (broadcast api boc) = Inl e \<Longrightarrow> e = RemoteError"
  by (auto simp add: broadcast_def attempt_def split: option.splits)

lemma emulate_error: "snd (emulate api a boc) = Inl e \<Longrightarrow> e = RemoteError"
  by (auto simp add: emulate_def attempt_def split: option.splits)







lemma tonTransfer_broadcast_error:
  "snd (andThen (createTonTransfer sdk api sq walletState recipient amt isMax key)
          (\<lambda>cell. broadcast api (toBase64 sdk cell))) = Inl e
     \<Longrightarrow> e = AddressError \<or> e = SdkError \<or> e = RemoteError"
  by (auto simp add: snd_andThen_Inl dest: createTonTransfer_error broadcast_error)


lemma multiTransfer_emulate_error:
  "snd (andThen (createTonMultiTransfer sdk api sq walletState msgs key)
          (\<lambda>cell. emulate api a (toBase64 sdk cell))) = Inl e
     \<Longrightarrow> e = SdkError \<or> e = RemoteError"
  by (auto simp add: snd_andThen_Inl dest: createTonMultiTransfer_error emulate_error)

lemma multiTransfer_broadcast_error:
  "snd (andThen (createTonMultiTransfer sdk api sq walletState msgs key)
          (\<lambda>cell. andThen (broadcast api (toBase64 sdk cell)) (\<lambda>_. succeed True))) = Inl e
     \<Longrightarrow> e = SdkError \<or> e = RemoteError"
  by (auto simp add: snd_andThen_Inl succeed_def dest: createTonMultiTransfer_error broadcast_error)

text \<open>
  Each operation once the clock is in sync and the wallet has been fetched: the gates
  that remain, then construction and the remote call.
\<close>

lemma sendTonTransfer_synced:
  assumes "serviceTimeSync api = Some True"
      and "walletBalance api (rawAddress (active walletState)) = Some (wallet, sq)"
  shows "sendTonTransfer sdk api walletState recipient amt isMax fee mnemonic =
     (if \<not> isMax \<and> AssetAmount.weiAmount amt + (- extra (event fee)) \<ge> balance wallet
      then ([ServiceTimeRequest, KeyDerivation,
             WalletBalanceRequest (rawAddress (active walletState))], Inl NotEnoughBalance)
      else ([ServiceTimeRequest, KeyDerivation,
             WalletBalanceRequest (rawAddress (active walletState))]
            @ fst (andThen (createTonTransfer sdk api sq walletState recipient
                     (AssetAmount.weiAmount amt) isMax (mnemonicToPrivateKey sdk mnemonic))
                     (\<lambda>cell. broadcast api (toBase64 sdk cell))),
            snd (andThen (createTonTransfer sdk api sq walletState recipient
                     (AssetAmount.weiAmount amt) isMax (mnemonicToPrivateKey sdk mnemonic))
                     (\<lambda>cell. broadcast api (toBase64 sdk cell)))))"
  using assms
  by (simp add: sendTonTransfer_def checkServiceTimeOrDie_cases andThen_Inr andThen_Inl
        deriveKey_def getWalletBalance_def attempt_def checkWalletBalanceOrDie_def die_def
        andThen_succeed Let_def)
     (simp add: succeed_def andThen_Inr add.commute)














text \<open>What each construction asks of the SDK, and what the remote call then returns.\<close>

lemma createTonTransfer_value:
  "createTonTransfer sdk api sq walletState recipient amt isMax key =
     (case seeIfTransferBounceable sdk (toAccount recipient) (TonRecipientData.address recipient) of
        Inl e \<Rightarrow> ([], Inl e)
      | Inr b \<Rightarrow>
          (let args =
                 \<lparr>seqno = sq, secretKey = key, timeout = getTTL api,
                  sendMode =
                    (if isMax then CARRY_ALL_REMAINING_BALANCE sdk + IGNORE_ERRORS sdk
                     else PAY_GAS_SEPARATELY sdk + IGNORE_ERRORS sdk),
                  messages =
                    [\<lparr>to = Account.address (toAccount recipient), bounce = Some b,
                      msg_value = amt, init = None,
                      body = (if TonRecipientData.comment recipient \<noteq> []
                              then Some (TextComment (TonRecipientData.comment recipient))
                              else None)\<rparr>]\<rparr>
           in ([Construction args],
               case toBoc sdk walletState args None of
                 None \<Rightarrow> Inl SdkError
               | Some cell \<Rightarrow> Inr cell)))"
  by (simp add: createTonTransfer_def createTransfer_def attempt_def die_def Let_def
        split: sum.splits)



section \<open>Bounce flag of a single transfer\<close>

text \<open>
  C10. An address that is not in the user-friendly format (a raw address) passes the
  syntactic test: \<open>seeIfAddressBounceable\<close> returns true. The batch derivation then
  yields true, and the single-transfer derivation treats the literal address as
  bounceable, so that its flag is the activity of the destination account.
\<close>

theorem raw_address_bounceable:
  "\<not> isFriendly sdk a \<Longrightarrow>
     seeIfAddressBounceable sdk a = Inr True
     \<and> seeIfBounceable sdk accounts a = Inr (Some True)
     \<and> seeIfTransferBounceable sdk account \<lparr>TonRecipient.address = a, dns = None\<rparr>
         = Inr (status account = ''active'')"
  by (simp add: seeIfAddressBounceable_def seeIfBounceable_def seeIfTransferBounceable_def)

theorem raw_address_bounceable_witness:
  "\<not> isFriendly standInSdk ''0:83dfd552e63729b472fcbcc8c45ebcc6691702558b68ec7527e1ba403a0f31a8''
   \<and> seeIfAddressBounceable standInSdk
         ''0:83dfd552e63729b472fcbcc8c45ebcc6691702558b68ec7527e1ba403a0f31a8'' = Inr True
   \<and> seeIfBounceable standInSdk Map.empty
         ''0:83dfd552e63729b472fcbcc8c45ebcc6691702558b68ec7527e1ba403a0f31a8'' = Inr (Some True)"
  using raw_address_bounceable
          [of standInSdk "''0:83dfd552e63729b472fcbcc8c45ebcc6691702558b68ec7527e1ba403a0f31a8''"
              Map.empty "\<lparr>Account.address = ''x'', balance = 0, status = ''uninit''\<rparr>"]
  by (simp add: standInSdk_def)

text \<open>
  C1, as the spec states it, fails: a syntactically non-bounceable literal address whose
  destination account is active yields false, not true, and so does a bounceable address
  whose destination account is not active.
\<close>

theorem transfer_bounce_counterexample:
  "seeIfAddressBounceable standInSdk ''UQCD39VS5jcptHL8vMjEXrzGaRcCVYto7HUn4bpAOg8xqEBI'' = Inr False
   \<and> seeIfTransferBounceable standInSdk
        \<lparr>Account.address = ''0:83dfd552e63729b472fcbcc8c45ebcc6691702558b68ec7527e1ba403a0f31a8'',
         balance = 5, status = ''active''\<rparr>
        \<lparr>TonRecipient.address = ''UQCD39VS5jcptHL8vMjEXrzGaRcCVYto7HUn4bpAOg8xqEBI'', dns = None\<rparr>
      = Inr False
   \<and> seeIfAddressBounceable standInSdk ''EQCD39VS5jcptHL8vMjEXrzGaRcCVYto7HUn4bpAOg8xqB2N'' = Inr True
   \<and> seeIfTransferBounceable standInSdk
        \<lparr>Account.address = ''0:83dfd552e63729b472fcbcc8c45ebcc6691702558b68ec7527e1ba403a0f31a8'',
         balance = 0, status = ''uninit''\<rparr>
        \<lparr>TonRecipient.address = ''EQCD39VS5jcptHL8vMjEXrzGaRcCVYto7HUn4bpAOg8xqB2N'', dns = None\<rparr>
      = Inr False"
  by (simp add: seeIfTransferBounceable_def seeIfAddressBounceable_def standInSdk_def)

text \<open>
  C1, amended. The bounce flag of a single transfer is true exactly when the recipient
  is a literal address, the address is syntactically bounceable and the destination
  account is active. It is false when the recipient is a DNS reference, when the literal
  address is syntactically non-bounceable (whatever the status of the account), and when
  the address is bounceable and the account is not active.
\<close>

theorem transfer_bounce_flag:
  "(seeIfTransferBounceable sdk account recipient = Inr True \<longleftrightarrow>
      dns recipient = None
      \<and> seeIfAddressBounceable sdk (TonRecipient.address recipient) = Inr True
      \<and> status account = ''active'')
   \<and> (seeIfTransferBounceable sdk account recipient = Inr False \<longleftrightarrow>
      dns recipient \<noteq> None
      \<or> seeIfAddressBounceable sdk (TonRecipient.address recipient) = Inr False
      \<or> (seeIfAddressBounceable sdk (TonRecipient.address recipient) = Inr True
         \<and> status account \<noteq> ''active''))"
  by (auto simp add: seeIfTransferBounceable_def split: sum.splits)

theorem transfer_bounce_flag_witness:
  "seeIfTransferBounceable standInSdk
     \<lparr>Account.address = ''0:83dfd552e63729b472fcbcc8c45ebcc6691702558b68ec7527e1ba403a0f31a8'',
      balance = 5, status = ''active''\<rparr>
     \<lparr>TonRecipient.address = ''EQCD39VS5jcptHL8vMjEXrzGaRcCVYto7HUn4bpAOg8xqB2N'', dns = None\<rparr>
   = Inr True
   \<and> seeIfTransferBounceable standInSdk
     \<lparr>Account.address = ''0:83dfd552e63729b472fcbcc8c45ebcc6691702558b68ec7527e1ba403a0f31a8'',
      balance = 5, status = ''active''\<rparr>
     \<lparr>TonRecipient.address = ''EQCD39VS5jcptHL8vMjEXrzGaRcCVYto7HUn4bpAOg8xqB2N'',
      dns = Some ''wallet.ton''\<rparr>
   = Inr False"
  using transfer_bounce_flag
          [of standInSdk
              "\<lparr>Account.address = ''0:83dfd552e63729b472fcbcc8c45ebcc6691702558b68ec7527e1ba403a0f31a8'',
                balance = 5, status = ''active''\<rparr>"
              "\<lparr>TonRecipient.address = ''EQCD39VS5jcptHL8vMjEXrzGaRcCVYto7HUn4bpAOg8xqB2N'',
                dns = None\<rparr>"]
        transfer_bounce_flag
          [of standInSdk
              "\<lparr>Account.address = ''0:83dfd552e63729b472fcbcc8c45ebcc6691702558b68ec7527e1ba403a0f31a8'',
                balance = 5, status = ''active''\<rparr>"
              "\<lparr>TonRecipient.address = ''EQCD39VS5jcptHL8vMjEXrzGaRcCVYto7HUn4bpAOg8xqB2N'',
                dns = Some ''wallet.ton''\<rparr>"]
  by (simp add: seeIfAddressBounceable_def standInSdk_def)

section \<open>Bounce flag of a batch transfer\<close>




section \<open>Settings list\<close>

text \<open>The filter of the page: an entry passes it exactly when one of the four conditions holds.\<close>

lemma walletsToShow_iff:
  "w \<in> set (walletsToShow bc cur wallets) \<longleftrightarrow>
     w \<in> set wallets
     \<and> (WalletVersionEntry.version w \<notin> set bc
        \<or> (\<exists>item \<in> set cur. WalletAddress.version item = WalletVersionEntry.version w)
        \<or> tonBalance w \<noteq> 0
        \<or> hasJettons w)"
  by (auto simp add: walletsToShow_def list_ex_iff)

text \<open>
  C6, as the spec states it, fails: for a ledger account (and likewise a keystone account)
  the page renders an error line in place of the list, so an entry of a version that is
  not backward-compatibility-only, with a balance, is not displayed.
\<close>

theorem displayed_wallets_counterexample:
  "WalletVersionEntry.version
      \<lparr>WalletVersionEntry.version = V4R2, address = ''a'', tonBalance = 5, hasJettons = False\<rparr>
     \<notin> set [V4R1, V3R1]
   \<and> WalletVersionPageContent [V4R1, V3R1]
        \<lparr>accountType = ''ledger'',
         activeDerivationTonWallets = [\<lparr>rawAddress = ''r'', version = V4R2\<rparr>]\<rparr>
        None
        (Some [\<lparr>WalletVersionEntry.version = V4R2, address = ''a'', tonBalance = 5,
                 hasJettons = False\<rparr>])
     = []"
  by (simp add: WalletVersionPageContent_def)

text \<open>
  C6, amended. Once the wallet list has loaded, for a selected account that is neither a
  ledger nor a keystone account, an entry of the list is displayed if and only if its
  version is not a backward-compatibility-only version, or a wallet of that version is
  attached to the account, or its TON balance is not zero, or it holds jettons. For a
  ledger or a keystone account, and while the list is loading, no entry is displayed.
\<close>

theorem displayed_wallets_iff:
  "w \<in> set (WalletVersionPageContent bc activeAccount passedAccount wallets) \<longleftrightarrow>
     (let selectedAccount = (case passedAccount of None \<Rightarrow> activeAccount | Some a \<Rightarrow> a)
      in accountType selectedAccount \<noteq> ''ledger''
         \<and> accountType selectedAccount \<noteq> ''keystone''
         \<and> (\<exists>ws. wallets = Some ws
                \<and> w \<in> set ws
                \<and> (WalletVersionEntry.version w \<notin> set bc
                   \<or> (\<exists>item \<in> set (activeDerivationTonWallets selectedAccount).
                         WalletAddress.version item = WalletVersionEntry.version w)
                   \<or> tonBalance w \<noteq> 0
                   \<or> hasJettons w)))"
  by (auto simp add: WalletVersionPageContent_def Let_def walletsToShow_iff
        split: option.splits)

theorem displayed_wallets_iff_witness:
  "\<lparr>WalletVersionEntry.version = V4R1, address = ''a'', tonBalance = 0, hasJettons = True\<rparr>
     \<in> set (WalletVersionPageContent [V4R1, V3R1]
          \<lparr>accountType = ''mnemonic'',
           activeDerivationTonWallets = [\<lparr>rawAddress = ''r'', version = V4R2\<rparr>]\<rparr>
          None
          (Some
            [\<lparr>WalletVersionEntry.version = V3R1, address = ''b'', tonBalance = 0, hasJettons = False\<rparr>,
             \<lparr>WalletVersionEntry.version = V4R1, address = ''a'', tonBalance = 0, hasJettons = True\<rparr>]))
   \<and> \<lparr>WalletVersionEntry.version = V3R1, address = ''b'', tonBalance = 0, hasJettons = False\<rparr>
     \<notin> set (WalletVersionPageContent [V4R1, V3R1]
          \<lparr>accountType = ''mnemonic'',
           activeDerivationTonWallets = [\<lparr>rawAddress = ''r'', version = V4R2\<rparr>]\<rparr>
          None
          (Some
            [\<lparr>WalletVersionEntry.version = V3R1, address = ''b'', tonBalance = 0, hasJettons = False\<rparr>,
             \<lparr>WalletVersionEntry.version = V4R1, address = ''a'', tonBalance = 0, hasJettons = True\<rparr>]))
   \<and> \<lparr>WalletVersionEntry.version = V4R1, address = ''a'', tonBalance = 0, hasJettons = True\<rparr>
     \<notin> set (WalletVersionPageContent [V4R1, V3R1]
          \<lparr>accountType = ''mnemonic'',
           activeDerivationTonWallets = [\<lparr>rawAddress = ''r'', version = V4R2\<rparr>]\<rparr>
          (Some \<lparr>accountType = ''keystone'', activeDerivationTonWallets = []\<rparr>)
          (Some
            [\<lparr>WalletVersionEntry.version = V3R1, address = ''b'', tonBalance = 0, hasJettons = False\<rparr>,
             \<lparr>WalletVersionEntry.version = V4R1, address = ''a'', tonBalance = 0, hasJettons = True\<rparr>]))"
  using displayed_wallets_iff
          [of "\<lparr>WalletVersionEntry.version = V4R1, address = ''a'', tonBalance = 0, hasJettons = True\<rparr>"
              "[V4R1, V3R1]"
              "\<lparr>accountType = ''mnemonic'',
                activeDerivationTonWallets = [\<lparr>rawAddress = ''r'', version = V4R2\<rparr>]\<rparr>"
              None
              "Some
                [\<lparr>WalletVersionEntry.version = V3R1, address = ''b'', tonBalance = 0, hasJettons = False\<rparr>,
                 \<lparr>WalletVersionEntry.version = V4R1, address = ''a'', tonBalance = 0, hasJettons = True\<rparr>]"]
        displayed_wallets_iff
          [of "\<lparr>WalletVersionEntry.version = V3R1, address = ''b'', tonBalance = 0, hasJettons = False\<rparr>"
              "[V4R1, V3R1]"
              "\<lparr>accountType = ''mnemonic'',
                activeDerivationTonWallets = [\<lparr>rawAddress = ''r'', version = V4R2\<rparr>]\<rparr>"
              None
              "Some
                [\<lparr>WalletVersionEntry.version = V3R1, address = ''b'', tonBalance = 0, hasJettons = False\<rparr>,
                 \<lparr>WalletVersionEntry.version = V4R1, address = ''a'', tonBalance = 0, hasJettons = True\<rparr>]"]
        displayed_wallets_iff
          [of "\<lparr>WalletVersionEntry.version = V4R1, address = ''a'', tonBalance = 0, hasJettons = True\<rparr>"
              "[V4R1, V3R1]"
              "\<lparr>accountType = ''mnemonic'',
                activeDerivationTonWallets = [\<lparr>rawAddress = ''r'', version = V4R2\<rparr>]\<rparr>"
              "Some \<lparr>accountType = ''keystone'', activeDerivationTonWallets = []\<rparr>"
              "Some
                [\<lparr>WalletVersionEntry.version = V3R1, address = ''b'', tonBalance = 0, hasJettons = False\<rparr>,
                 \<lparr>WalletVersionEntry.version = V4R1, address = ''a'', tonBalance = 0, hasJettons = True\<rparr>]"]
  by simp

section \<open>Validation gates\<close>

text \<open>
  C5. When the remote service clock is out of sync, each of the six transfer operations
  fails with the \<^verbatim>\<open>date-and-time\<close> condition, and \<open>tonConnectTransferError\<close> returns it as
  the error kind, after the service-time request alone: no balance or sequence-number
  fetch, no key derivation, no construction, no emulation and no broadcast is made.
\<close>

theorem desync_short_circuit:
  assumes "serviceTimeSync api = Some False"
  shows "estimateTonTransfer sdk api walletState recipient amt isMax
           = ([ServiceTimeRequest], Inl DateAndTime)
   \<and> estimateTonConnectTransfer sdk api walletState accounts params
           = ([ServiceTimeRequest], Inl DateAndTime)
   \<and> sendTonConnectTransfer sdk api walletState accounts params mnemonic
           = ([ServiceTimeRequest], Inl DateAndTime)
   \<and> sendTonTransfer sdk api walletState recipient assetAmount isMax fee mnemonic
           = ([ServiceTimeRequest], Inl DateAndTime)
   \<and> estimateTonMultiTransfer sdk api walletState transferMessages
           = ([ServiceTimeRequest], Inl DateAndTime)
   \<and> sendTonMultiTransfer sdk api walletState transferMessages feeEstimate mnemonic
           = ([ServiceTimeRequest], Inl DateAndTime)
   \<and> tonConnectTransferError sdk api walletState params
           = ([ServiceTimeRequest], Inr \<lparr>kind = Some DateAndTime\<rparr>)"
  using assms
  by (simp add: estimateTonTransfer_def estimateTonConnectTransfer_def sendTonConnectTransfer_def
        sendTonTransfer_def estimateTonMultiTransfer_def sendTonMultiTransfer_def
        tonConnectTransferError_def checkServiceTimeOrDie_cases andThen_Inl
        seeIfServiceTimeSync_def attempt_def andThen_Inr succeed_def)

theorem desync_short_circuit_witness:
  "serviceTimeSync (exampleApi\<lparr>serviceTimeSync := Some False\<rparr>) = Some False
   \<and> sendTonTransfer standInSdk (exampleApi\<lparr>serviceTimeSync := Some False\<rparr>) exampleWallet
        exampleRecipient \<lparr>AssetAmount.weiAmount = 100\<rparr> False \<lparr>event = \<lparr>extra = - 50\<rparr>\<rparr> [''abandon'']
       = ([ServiceTimeRequest], Inl DateAndTime)
   \<and> tonConnectTransferError standInSdk (exampleApi\<lparr>serviceTimeSync := Some False\<rparr>) exampleWallet
        \<lparr>TonConnectTransactionPayload.messages = [exampleItem]\<rparr>
       = ([ServiceTimeRequest], Inr \<lparr>kind = Some DateAndTime\<rparr>)"
  using desync_short_circuit
          [of "exampleApi\<lparr>serviceTimeSync := Some False\<rparr>" standInSdk exampleWallet
              exampleRecipient 100 False Map.empty "\<lparr>TonConnectTransactionPayload.messages = [exampleItem]\<rparr>" "[''abandon'']"
              "\<lparr>AssetAmount.weiAmount = 100\<rparr>" "\<lparr>event = \<lparr>extra = - 50\<rparr>\<rparr>" "[]" 0]
  by simp

text \<open>
  C2. For a non-max single transfer that reaches the balance gate (the clock is in sync
  and the wallet has been fetched), \<open>sendTonTransfer\<close> fails with \<^verbatim>\<open>not-enough-balance\<close>
  exactly when the amount plus the estimated fee (the negated \<^verbatim>\<open>extra\<close> of the estimation
  event) is greater than or equal to the fetched balance, and it has then made no
  construction and no broadcast. Otherwise it proceeds: unless the recipient address
  fails to parse, it asks the SDK for one transfer with the fetched sequence number, the
  derived key, the mode \<^verbatim>\<open>PAY_GAS_SEPARATELY + IGNORE_ERRORS\<close> and one message of the amount to
  the destination account, and unless the SDK throws it broadcasts the base64 text of that
  transfer and returns when the remote service accepts it.
\<close>

theorem send_balance_gate:
  assumes "serviceTimeSync api = Some True"
      and "walletBalance api (rawAddress (active walletState)) = Some (wallet, sq)"
  shows "(snd (sendTonTransfer sdk api walletState recipient amt False fee mnemonic)
            = Inl NotEnoughBalance
          \<longleftrightarrow> AssetAmount.weiAmount amt + (- extra (event fee)) \<ge> balance wallet)
     \<and> (AssetAmount.weiAmount amt + (- extra (event fee)) \<ge> balance wallet \<longrightarrow>
          sendTonTransfer sdk api walletState recipient amt False fee mnemonic
            = ([ServiceTimeRequest, KeyDerivation,
                WalletBalanceRequest (rawAddress (active walletState))], Inl NotEnoughBalance))
     \<and> (AssetAmount.weiAmount amt + (- extra (event fee)) < balance wallet \<longrightarrow>
          (case seeIfTransferBounceable sdk (toAccount recipient)
                  (TonRecipientData.address recipient) of
             Inl e \<Rightarrow>
               sendTonTransfer sdk api walletState recipient amt False fee mnemonic
                 = ([ServiceTimeRequest, KeyDerivation,
                     WalletBalanceRequest (rawAddress (active walletState))], Inl e)
           | Inr b \<Rightarrow>
               (let args =
                      \<lparr>seqno = sq, secretKey = mnemonicToPrivateKey sdk mnemonic,
                       timeout = getTTL api,
                       sendMode = PAY_GAS_SEPARATELY sdk + IGNORE_ERRORS sdk,
                       messages =
                         [\<lparr>to = Account.address (toAccount recipient), bounce = Some b,
                           msg_value = AssetAmount.weiAmount amt, init = None,
                           body = (if TonRecipientData.comment recipient \<noteq> []
                                   then Some (TextComment (TonRecipientData.comment recipient))
                                   else None)\<rparr>]\<rparr>
                in case toBoc sdk walletState args None of
                     None \<Rightarrow>
                       sendTonTransfer sdk api walletState recipient amt False fee mnemonic
                         = ([ServiceTimeRequest, KeyDerivation,
                             WalletBalanceRequest (rawAddress (active walletState)),
                             Construction args], Inl SdkError)
                   | Some cell \<Rightarrow>
                       sendTonTransfer sdk api walletState recipient amt False fee mnemonic
                         = ([ServiceTimeRequest, KeyDerivation,
                             WalletBalanceRequest (rawAddress (active walletState)),
                             Construction args, Broadcast (toBase64 sdk cell)],
                            case sendBlockchainMessage api (toBase64 sdk cell) of
                              None \<Rightarrow> Inl RemoteError
                            | Some _ \<Rightarrow> Inr ()))))"
proof -
  let ?gate = "AssetAmount.weiAmount amt + (- extra (event fee)) \<ge> balance wallet"
  note eq = sendTonTransfer_synced [OF assms, of sdk recipient amt False fee mnemonic]
  have no: "snd (andThen (createTonTransfer sdk api sq walletState recipient
                        (AssetAmount.weiAmount amt) False (mnemonicToPrivateKey sdk mnemonic))
                        (\<lambda>cell. broadcast api (toBase64 sdk cell))) \<noteq> Inl NotEnoughBalance"
    using tonTransfer_broadcast_error by blast
  show ?thesis
  proof (cases ?gate)
    case True
    then show ?thesis using eq by simp
  next
    case False
    have tail: "case seeIfTransferBounceable sdk (toAccount recipient)
                  (TonRecipientData.address recipient) of
             Inl e \<Rightarrow>
               sendTonTransfer sdk api walletState recipient amt False fee mnemonic
                 = ([ServiceTimeRequest, KeyDerivation,
                     WalletBalanceRequest (rawAddress (active walletState))], Inl e)
           | Inr b \<Rightarrow>
               (let args =
                      \<lparr>seqno = sq, secretKey = mnemonicToPrivateKey sdk mnemonic,
                       timeout = getTTL api,
                       sendMode = PAY_GAS_SEPARATELY sdk + IGNORE_ERRORS sdk,
                       messages =
                         [\<lparr>to = Account.address (toAccount recipient), bounce = Some b,
                           msg_value = AssetAmount.weiAmount amt, init = None,
                           body = (if TonRecipientData.comment recipient \<noteq> []
                                   then Some (TextComment (TonRecipientData.comment recipient))
                                   else None)\<rparr>]\<rparr>
                in case toBoc sdk walletState args None of
                     None \<Rightarrow>
                       sendTonTransfer sdk api walletState recipient amt False fee mnemonic
                         = ([ServiceTimeRequest, KeyDerivation,
                             WalletBalanceRequest (rawAddress (active walletState)),
                             Construction args], Inl SdkError)
                   | Some cell \<Rightarrow>
                       sendTonTransfer sdk api walletState recipient amt False fee mnemonic
                         = ([ServiceTimeRequest, KeyDerivation,
                             WalletBalanceRequest (rawAddress (active walletState)),
                             Construction args, Broadcast (toBase64 sdk cell)],
                            case sendBlockchainMessage api (toBase64 sdk cell) of
                              None \<Rightarrow> Inl RemoteError
                            | Some _ \<Rightarrow> Inr ()))"
      using False eq
      by (auto simp add: createTonTransfer_value Let_def andThen_def broadcast_def attempt_def
            split: sum.splits option.splits split del: if_split)
    from False eq no have iff: "snd (sendTonTransfer sdk api walletState recipient amt False
                                   fee mnemonic) \<noteq> Inl NotEnoughBalance"
      by simp
    from False iff tail show ?thesis by simp
  qed
qed

theorem send_balance_gate_witness:
  "serviceTimeSync exampleApi = Some True
   \<and> walletBalance exampleApi (rawAddress (active exampleWallet)) = Some (exampleAccount, 7)
   \<and> sendTonTransfer standInSdk exampleApi exampleWallet exampleRecipient
        \<lparr>AssetAmount.weiAmount = 950\<rparr> False \<lparr>event = \<lparr>extra = - 50\<rparr>\<rparr> [''abandon'']
       = ([ServiceTimeRequest, KeyDerivation, WalletBalanceRequest exampleRaw],
          Inl NotEnoughBalance)
   \<and> sendTonTransfer standInSdk exampleApi exampleWallet exampleRecipient
        \<lparr>AssetAmount.weiAmount = 949\<rparr> False \<lparr>event = \<lparr>extra = - 50\<rparr>\<rparr> [''abandon'']
       = ([ServiceTimeRequest, KeyDerivation, WalletBalanceRequest exampleRaw,
           Construction
             \<lparr>seqno = 7, secretKey = [7], timeout = 300, sendMode = 3,
              messages = [\<lparr>to = exampleRaw, bounce = Some False, msg_value = 949,
                            init = None, body = Some (TextComment ''rent'')\<rparr>]\<rparr>,
           Broadcast ''BBB''],
          Inr ())"
proof -
  have s: "serviceTimeSync exampleApi = Some True"
    by (simp add: exampleApi_def)
  have w: "walletBalance exampleApi (rawAddress (active exampleWallet)) = Some (exampleAccount, 7)"
    by (simp add: exampleApi_def)
  have b: "balance exampleAccount = 1000" "rawAddress (active exampleWallet) = exampleRaw"
    by (simp_all add: exampleAccount_def exampleWallet_def)
  have f: "seeIfTransferBounceable standInSdk (toAccount exampleRecipient)
             (TonRecipientData.address exampleRecipient) = Inr False"
    by (simp add: seeIfTransferBounceable_def seeIfAddressBounceable_def standInSdk_def
          exampleRecipient_def)
  have r: "Account.address (toAccount exampleRecipient) = exampleRaw"
    "TonRecipientData.comment exampleRecipient = ''rent''"
    "getTTL exampleApi = 300" "sendBlockchainMessage exampleApi = (\<lambda>boc. Some ())"
    by (simp_all add: exampleRecipient_def exampleApi_def)
  show ?thesis
    using send_balance_gate [OF s w, of standInSdk exampleRecipient
            "\<lparr>AssetAmount.weiAmount = 950\<rparr>" "\<lparr>event = \<lparr>extra = - 50\<rparr>\<rparr>" "[''abandon'']"]
          send_balance_gate [OF s w, of standInSdk exampleRecipient
            "\<lparr>AssetAmount.weiAmount = 949\<rparr>" "\<lparr>event = \<lparr>extra = - 50\<rparr>\<rparr>" "[''abandon'']"]
          s w b f r
    by (simp add: standInSdk_def)
qed




section \<open>Send-max transfers\<close>



section \<open>Submission\<close>

text \<open>
  C8, as the spec states it, fails: after a successful broadcast of the envelope \<open>BBB\<close>,
  \<open>sendTonTransfer\<close> returns no value and \<open>sendTonMultiTransfer\<close> returns \<open>True\<close>; neither
  returns the envelope.
\<close>

theorem send_return_counterexample:
  "sendTonTransfer standInSdk exampleApi exampleWallet exampleRecipient
      \<lparr>AssetAmount.weiAmount = 100\<rparr> False \<lparr>event = \<lparr>extra = - 50\<rparr>\<rparr> [''abandon'']
     = ([ServiceTimeRequest, KeyDerivation, WalletBalanceRequest exampleRaw,
         Construction
           \<lparr>seqno = 7, secretKey = [7], timeout = 300, sendMode = 3,
            messages = [\<lparr>to = exampleRaw, bounce = Some False, msg_value = 100,
                          init = None, body = Some (TextComment ''rent'')\<rparr>]\<rparr>,
         Broadcast ''BBB''],
        Inr ())
   \<and> sendBlockchainMessage exampleApi ''BBB'' = Some ()
   \<and> sendTonMultiTransfer standInSdk exampleApi exampleWallet [exampleMessage] 50 [''abandon'']
     = ([ServiceTimeRequest, KeyDerivation, WalletBalanceRequest exampleRaw,
         Construction
           \<lparr>seqno = 7, secretKey = [7], timeout = 300, sendMode = 3,
            messages = [\<lparr>to = ''EQCD39VS5jcptHL8vMjEXrzGaRcCVYto7HUn4bpAOg8xqB2N'',
                          bounce = Some True, msg_value = 1, init = None, body = None\<rparr>]\<rparr>,
         Broadcast ''BBB''],
        Inr True)"
  by (simp add: sendTonTransfer_def sendTonMultiTransfer_def checkServiceTimeOrDie_cases
        andThen_Inr deriveKey_def getWalletBalance_def attempt_def checkWalletBalanceOrDie_def
        checkMaxAllowedMessagesInMultiTransferOrDie_def createTonTransfer_def
        createTonMultiTransfer_def createTransfer_def broadcast_def succeed_def
        seeIfTransferBounceable_def seeIfAddressBounceable_def
        standInSdk_def exampleApi_def exampleWallet_def exampleAccount_def exampleRecipient_def
        exampleMessage_def exampleRaw_def)

text \<open>
  C8, amended. \<open>sendTonConnectTransfer\<close> returns an envelope exactly when it has broadcast
  that envelope and the remote service has accepted it. \<open>sendTonTransfer\<close> returns, with no
  value, exactly when its broadcast has been accepted, and \<open>sendTonMultiTransfer\<close> returns
  exactly then, with the value \<open>True\<close>.
\<close>

theorem send_return_values:
  "(snd (sendTonConnectTransfer sdk api walletState accounts params mnemonic) = Inr boc
      \<longleftrightarrow> Broadcast boc
            \<in> set (fst (sendTonConnectTransfer sdk api walletState accounts params mnemonic))
          \<and> sendBlockchainMessage api boc = Some ())
   \<and> (snd (sendTonTransfer sdk api walletState recipient assetAmount isMax fee mnemonic) = Inr ()
      \<longleftrightarrow> (\<exists>sent. Broadcast sent
                   \<in> set (fst (sendTonTransfer sdk api walletState recipient assetAmount isMax
                                 fee mnemonic))
                 \<and> sendBlockchainMessage api sent = Some ()))
   \<and> (snd (sendTonMultiTransfer sdk api walletState msgs feeEstimate mnemonic) = Inr v
      \<longleftrightarrow> v \<and> (\<exists>sent. Broadcast sent
                       \<in> set (fst (sendTonMultiTransfer sdk api walletState msgs feeEstimate
                                     mnemonic))
                     \<and> sendBlockchainMessage api sent = Some ()))"
proof (intro conjI)
  show "snd (sendTonConnectTransfer sdk api walletState accounts params mnemonic) = Inr boc
      \<longleftrightarrow> Broadcast boc
            \<in> set (fst (sendTonConnectTransfer sdk api walletState accounts params mnemonic))
          \<and> sendBlockchainMessage api boc = Some ()"
    by (auto simp add: sendTonConnectTransfer_def checkServiceTimeOrDie_cases andThen_def
          deriveKey_def getWalletSeqNo_def attempt_def createTonConnectTransfer_def
          createTransfer_def broadcast_def die_def succeed_def Let_def
          split: option.splits sum.splits if_splits)
next
  show "snd (sendTonTransfer sdk api walletState recipient assetAmount isMax fee mnemonic) = Inr ()
      \<longleftrightarrow> (\<exists>sent. Broadcast sent
                   \<in> set (fst (sendTonTransfer sdk api walletState recipient assetAmount isMax
                                 fee mnemonic))
                 \<and> sendBlockchainMessage api sent = Some ())"
    by (auto simp add: sendTonTransfer_def checkServiceTimeOrDie_cases andThen_def
          deriveKey_def getWalletBalance_def attempt_def createTonTransfer_def
          checkWalletBalanceOrDie_def createTransfer_def broadcast_def die_def succeed_def Let_def
          split: option.splits sum.splits if_splits prod.splits)
next
  show "snd (sendTonMultiTransfer sdk api walletState msgs feeEstimate mnemonic) = Inr v
      \<longleftrightarrow> v \<and> (\<exists>sent. Broadcast sent
                       \<in> set (fst (sendTonMultiTransfer sdk api walletState msgs feeEstimate
                                     mnemonic))
                     \<and> sendBlockchainMessage api sent = Some ())"
    by (auto simp add: sendTonMultiTransfer_def checkServiceTimeOrDie_cases andThen_def
          deriveKey_def getWalletBalance_def attempt_def createTonMultiTransfer_def
          checkWalletBalanceOrDie_def checkMaxAllowedMessagesInMultiTransferOrDie_def
          createTransfer_def broadcast_def die_def succeed_def Let_def
          split: option.splits sum.splits if_splits prod.splits)
qed

theorem send_return_values_witness:
  "snd (sendTonConnectTransfer standInSdk exampleApi exampleWallet exampleAccounts
          \<lparr>TonConnectTransactionPayload.messages = [exampleItem]\<rparr> [''abandon'']) = Inr ''BBB''
   \<and> Broadcast ''BBB''
       \<in> set (fst (sendTonConnectTransfer standInSdk exampleApi exampleWallet exampleAccounts
                     \<lparr>TonConnectTransactionPayload.messages = [exampleItem]\<rparr> [''abandon'']))"
proof -
  have t: "fst (sendTonConnectTransfer standInSdk exampleApi exampleWallet exampleAccounts
                  \<lparr>TonConnectTransactionPayload.messages = [exampleItem]\<rparr> [''abandon''])
           = [ServiceTimeRequest, KeyDerivation, SeqNoRequest exampleRaw,
              Construction
                \<lparr>seqno = 7, secretKey = [7], timeout = 300, sendMode = 3,
                 messages = [\<lparr>to = ''UQCD39VS5jcptHL8vMjEXrzGaRcCVYto7HUn4bpAOg8xqEBI'',
                               bounce = Some False, msg_value = 1, init = None, body = None\<rparr>]\<rparr>,
              Broadcast ''BBB'']"
    by (simp add: sendTonConnectTransfer_def checkServiceTimeOrDie_cases andThen_Inr
          deriveKey_def getWalletSeqNo_def attempt_def createTonConnectTransfer_def
          createTransfer_def broadcast_def succeed_def seeIfBounceable_def
          seeIfAddressBounceable_def internalMessage_def toStateInit_def toBody_def Let_def
          standInSdk_def exampleApi_def exampleWallet_def exampleAccounts_def exampleItem_def)
  have a: "sendBlockchainMessage exampleApi ''BBB'' = Some ()"
    by (simp add: exampleApi_def)
  show ?thesis
    using send_return_values [of standInSdk exampleApi exampleWallet exampleAccounts
            "\<lparr>TonConnectTransactionPayload.messages = [exampleItem]\<rparr>" "[''abandon'']" "''BBB''"
            exampleRecipient "\<lparr>AssetAmount.weiAmount = 100\<rparr>" False
            "\<lparr>event = \<lparr>extra = - 50\<rparr>\<rparr>" "[exampleMessage]" 50 True]
          t a
    by simp
qed



end
